theory Spec2Isabelle
  imports Main "HOL-Library.Word"
begin

section \<open>The Number Format Game: the high-score ledger in EEPROM\<close>

text \<open>
  The sketch \<^verbatim>\<open>NumberFormatGame.ino\<close> keeps five high scores in the bytes 0 to 4 of
  the board's EEPROM. Two functions touch the EEPROM: \<^verbatim>\<open>showHighScores\<close>, called by
  \<^verbatim>\<open>loop\<close> once at the end of every game with the global \<^verbatim>\<open>score\<close> of that game, and
  the \<^verbatim>\<open>'*'\<close> branch of \<^verbatim>\<open>debugMode\<close>, which writes the default table back.
  Both are embedded here as functions on an explicit state: the global \<^verbatim>\<open>score\<close>, the
  content of the EEPROM, and the chronological trace of everything the sketch did to the
  display, the clock and the EEPROM.
\<close>

subsection \<open>State and hardware primitives\<close>

type_synonym byte = "8 word"

datatype event =
    LcdClear
  | LcdPrint string
  | LcdPrintNum int
  | LcdSetCursor nat nat
  | Delay nat
  | EepromWrite int byte

text \<open>
  The global \<^verbatim>\<open>score\<close> is a C \<^verbatim>\<open>int\<close>, whose width depends on the board. It is
  modelled as an unbounded integer: the sketch only compares it with bytes and stores its
  low byte, and every theorem below holds for all integers, so for the values of any
  width.
\<close>

record game =
  score :: int
  eeprom :: "int \<Rightarrow> byte"
  trace :: "event list"

definition emit :: "event \<Rightarrow> game \<Rightarrow> game" where
  "emit ev st = st\<lparr>trace := trace st @ [ev]\<rparr>"

definition lcd_clear :: "game \<Rightarrow> game" where
  "lcd_clear st = emit LcdClear st"

definition lcd_print :: "string \<Rightarrow> game \<Rightarrow> game" where
  "lcd_print s st = emit (LcdPrint s) st"

definition lcd_print_num :: "int \<Rightarrow> game \<Rightarrow> game" where
  "lcd_print_num n st = emit (LcdPrintNum n) st"

definition lcd_setCursor :: "nat \<Rightarrow> nat \<Rightarrow> game \<Rightarrow> game" where
  "lcd_setCursor c r st = emit (LcdSetCursor c r) st"

definition delay :: "nat \<Rightarrow> game \<Rightarrow> game" where
  "delay ms st = emit (Delay ms) st"

text \<open>
  Modelled from the spec: the EEPROM library (\<^verbatim>\<open>EEPROM.h\<close>) is a vendor header that is
  not part of the repository. Following the spec's persisted state layout, the storage is
  byte addressed, every cell holds one unsigned byte, and reads and writes are immediate
  and cannot fail. \<^verbatim>\<open>EEPROM.read(a)\<close> returns the byte of cell \<open>a\<close>;
  \<^verbatim>\<open>EEPROM.write(a, v)\<close> takes an \<^verbatim>\<open>int\<close> expression at every call site of the sketch
  and stores its low eight bits (the conversion to \<^verbatim>\<open>uint8_t\<close>), written out here as
  \<open>word_of_int\<close>.
\<close>

definition EEPROM_read :: "int \<Rightarrow> game \<Rightarrow> byte" where
  "EEPROM_read a st = eeprom st a"

definition EEPROM_write :: "int \<Rightarrow> int \<Rightarrow> game \<Rightarrow> game" where
  "EEPROM_write a v st =
     st\<lparr>eeprom := (eeprom st)(a := word_of_int v),
        trace := trace st @ [EepromWrite a (word_of_int v)]\<rparr>"

text \<open>\<^verbatim>\<open>fullPagePrint(line1, line2)\<close>: clear, print, move to the second row, print.\<close>

definition fullPagePrint :: "string \<Rightarrow> string \<Rightarrow> game \<Rightarrow> game" where
  "fullPagePrint line1 line2 st =
     (let st = lcd_clear st;
          st = lcd_print line1 st;
          st = lcd_setCursor 0 1 st;
          st = lcd_print line2 st
      in st)"

subsection \<open>showHighScores\<close>

text \<open>
  Lines 280 to 285: the announcement. The global \<^verbatim>\<open>score\<close> is an \<^verbatim>\<open>int\<close>, the byte that
  was read is promoted to \<^verbatim>\<open>int\<close> for the comparison.
\<close>

definition showHighScores_announce :: "game \<Rightarrow> game" where
  "showHighScores_announce st =
     (if score st > uint (EEPROM_read 5 st)
      then (let st = lcd_clear st;
                st = lcd_print ''New High Score!'' st;
                st = delay 1000 st
            in st)
      else st)"

text \<open>
  Lines 287 to 295: \<^verbatim>\<open>for(int i = 4; i >= 0; i--)\<close>. The argument \<open>i\<close> is the loop
  counter; \<^verbatim>\<open>break\<close> and the failed loop test both return the state as it is.
\<close>

function showHighScores_rank :: "int \<Rightarrow> game \<Rightarrow> game" where
  "showHighScores_rank i st =
     (if i \<ge> 0 then
        (if score st > uint (EEPROM_read i st)
         then (let st = (if i < 4 then EEPROM_write i (i + 1) st else st);
                   st = EEPROM_write i (score st) st
               in showHighScores_rank (i - 1) st)
         else st)
      else st)"
  by pat_completeness auto
termination
  by (relation "measure (\<lambda>(i, st). nat (i + 1))") auto

declare showHighScores_rank.simps [simp del]

text \<open>Lines 300 to 304: \<^verbatim>\<open>for(int i = 0; i < 5; i++)\<close>, printing the five cells.\<close>

function showHighScores_print :: "int \<Rightarrow> game \<Rightarrow> game" where
  "showHighScores_print i st =
     (if i < 5 then
        (let st = lcd_print_num (uint (EEPROM_read i st)) st;
             st = lcd_print '' '' st
         in showHighScores_print (i + 1) st)
      else st)"
  by pat_completeness auto
termination
  by (relation "measure (\<lambda>(i, st). nat (5 - i))") auto

declare showHighScores_print.simps [simp del]

text \<open>Lines 297 to 304: the display step, which the spec calls \<^verbatim>\<open>renderLeaderboard\<close>.\<close>

definition renderLeaderboard :: "game \<Rightarrow> game" where
  "renderLeaderboard st =
     (let st = lcd_clear st;
          st = lcd_print ''High scores: '' st;
          st = lcd_setCursor 0 1 st
      in showHighScores_print 0 st)"

definition showHighScores :: "game \<Rightarrow> game" where
  "showHighScores st =
     (let st = showHighScores_announce st;
          st = showHighScores_rank 4 st
      in renderLeaderboard st)"

text \<open>
  The spec's \<^verbatim>\<open>recordSession(finalScore)\<close>: the session driver leaves the final score in
  the global \<^verbatim>\<open>score\<close> and calls \<^verbatim>\<open>showHighScores\<close>.
\<close>

definition recordSession :: "int \<Rightarrow> game \<Rightarrow> game" where
  "recordSession finalScore st = showHighScores (st\<lparr>score := finalScore\<rparr>)"

text \<open>One call per finished game, in the order the games were played.\<close>

fun sessions :: "int list \<Rightarrow> game \<Rightarrow> game" where
  "sessions [] st = st"
| "sessions (s # ss) st = sessions ss (recordSession s st)"

subsection \<open>The reset branch of debugMode\<close>

text \<open>Line 48: \<^verbatim>\<open>int highscore[5] = {10,7,5,4,2};\<close>, which nothing in the sketch assigns to.\<close>

definition highscore :: "int list" where
  "highscore = [10, 7, 5, 4, 2]"

text \<open>
  Lines 262 to 264: \<^verbatim>\<open>for (int i = 0 ; i < 5; i++) EEPROM.write(i, highscore[i]);\<close>
  The loop starts at 0 (see \<open>debugMode_reset\<close>), so the index stays within 0..4.
\<close>

function debugMode_write_defaults :: "int \<Rightarrow> game \<Rightarrow> game" where
  "debugMode_write_defaults i st =
     (if i < 5 then debugMode_write_defaults (i + 1) (EEPROM_write i (highscore ! nat i) st)
      else st)"
  by pat_completeness auto
termination
  by (relation "measure (\<lambda>(i, st). nat (5 - i))") auto

declare debugMode_write_defaults.simps [simp del]

text \<open>
  Lines 261 to 266: what the \<^verbatim>\<open>'*'\<close> branch of \<^verbatim>\<open>debugMode\<close> does before it hands
  control back to \<^verbatim>\<open>loop\<close>.
\<close>

definition debugMode_reset :: "game \<Rightarrow> game" where
  "debugMode_reset st =
     (let st = debugMode_write_defaults 0 st;
          st = fullPagePrint ''Scores reset to'' ''default values.'' st;
          st = delay 3000 st
      in st)"

subsection \<open>Observations\<close>

text \<open>The five ranked cells, rank 0 first.\<close>

definition leaderboard :: "game \<Rightarrow> byte list" where
  "leaderboard st = map (eeprom st) [0, 1, 2, 3, 4]"

text \<open>\<^verbatim>\<open>leaderboard[i] >= leaderboard[i+1]\<close> for \<open>i\<close> in 0..3, on the unsigned bytes.\<close>

definition sorted_desc :: "game \<Rightarrow> bool" where
  "sorted_desc st \<longleftrightarrow>
     eeprom st 1 \<le> eeprom st 0 \<and> eeprom st 2 \<le> eeprom st 1 \<and>
     eeprom st 3 \<le> eeprom st 2 \<and> eeprom st 4 \<le> eeprom st 3"

text \<open>The EEPROM writes of a trace, in order, as pairs of address and byte.\<close>

fun eeprom_writes :: "event list \<Rightarrow> (int \<times> byte) list" where
  "eeprom_writes [] = []"
| "eeprom_writes (EepromWrite a v # evs) = (a, v) # eeprom_writes evs"
| "eeprom_writes (_ # evs) = eeprom_writes evs"

text \<open>
  The writes one round of the ranking loop makes at cell \<open>i\<close> when the score beats it:
  \<open>i + 1\<close> first (below rank 4 only), then the score.
\<close>

definition round_writes :: "int \<Rightarrow> int \<Rightarrow> (int \<times> byte) list" where
  "round_writes s i =
     (if i < 4 then [(i, word_of_int (i + 1))] else []) @ [(i, word_of_int s)]"

text \<open>What the display step sends to the display for five given cell values.\<close>

definition display_events :: "byte list \<Rightarrow> event list" where
  "display_events vs =
     [LcdClear, LcdPrint ''High scores: '', LcdSetCursor 0 1] @
     concat (map (\<lambda>v. [LcdPrintNum (uint v), LcdPrint '' '']) vs)"

text \<open>
  A concrete board: the cells 0 to 4 hold the given five values, every other cell reads
  255, the value of an erased EEPROM cell; cell 5 holds \<open>b5\<close>.
\<close>

definition board :: "byte \<Rightarrow> byte \<Rightarrow> byte \<Rightarrow> byte \<Rightarrow> byte \<Rightarrow> byte \<Rightarrow> game" where
  "board v0 v1 v2 v3 v4 b5 =
     \<lparr>score = 0,
      eeprom = (\<lambda>_. 255)(0 := v0, 1 := v1, 2 := v2, 3 := v3, 4 := v4, 5 := b5),
      trace = []\<rparr>"

text \<open>The writes of a trace that go to the one address \<open>a\<close>.\<close>

definition writes_to :: "int \<Rightarrow> event list \<Rightarrow> (int \<times> byte) list" where
  "writes_to a evs = filter (\<lambda>w. fst w = a) (eeprom_writes evs)"

text \<open>
  The leading cells of the leaderboard whose value is at least \<open>s\<close>: the entries a
  score \<open>s\<close> does not beat, read from rank 0 down to the first one it beats.
\<close>

definition kept :: "int \<Rightarrow> game \<Rightarrow> byte list" where
  "kept s st = takeWhile (\<lambda>v. s \<le> uint v) (leaderboard st)"

section \<open>Basic facts\<close>

lemmas prim_defs =
  emit_def lcd_clear_def lcd_print_def lcd_print_num_def lcd_setCursor_def delay_def
  EEPROM_read_def EEPROM_write_def fullPagePrint_def

lemmas rank_unfold =
  showHighScores_rank.simps [of 4] showHighScores_rank.simps [of 3]
  showHighScores_rank.simps [of 2] showHighScores_rank.simps [of 1]
  showHighScores_rank.simps [of 0] showHighScores_rank.simps [of "- 1"]

lemmas print_unfold =
  showHighScores_print.simps [of 0] showHighScores_print.simps [of 1]
  showHighScores_print.simps [of 2] showHighScores_print.simps [of 3]
  showHighScores_print.simps [of 4] showHighScores_print.simps [of 5]

lemmas defaults_unfold =
  debugMode_write_defaults.simps [of 0] debugMode_write_defaults.simps [of 1]
  debugMode_write_defaults.simps [of 2] debugMode_write_defaults.simps [of 3]
  debugMode_write_defaults.simps [of 4] debugMode_write_defaults.simps [of 5]

lemma eeprom_writes_append [simp]:
  "eeprom_writes (xs @ ys) = eeprom_writes xs @ eeprom_writes ys"
  by (induction xs rule: eeprom_writes.induct) simp_all

lemma EEPROM_write_simps [simp]:
  "score (EEPROM_write a v st) = score st"
  "eeprom (EEPROM_write a v st) = (eeprom st)(a := word_of_int v)"
  "trace (EEPROM_write a v st) = trace st @ [EepromWrite a (word_of_int v)]"
  by (simp_all add: EEPROM_write_def)

lemma emit_simps [simp]:
  "score (emit ev st) = score st"
  "eeprom (emit ev st) = eeprom st"
  "trace (emit ev st) = trace st @ [ev]"
  by (simp_all add: emit_def)

lemma score_rank [simp]: "score (showHighScores_rank i st) = score st"
proof (induction i st rule: showHighScores_rank.induct)
  case (1 i st)
  show ?case
    by (subst showHighScores_rank.simps) (simp add: 1 Let_def)
qed

lemma eeprom_rank:
  "eeprom (showHighScores_rank i st) a =
     (if 0 \<le> a \<and> a \<le> i \<and> (\<forall>j. a \<le> j \<and> j \<le> i \<longrightarrow> uint (eeprom st j) < score st)
      then word_of_int (score st) else eeprom st a)"
proof (induction i st arbitrary: a rule: showHighScores_rank.induct)
  case (1 i st)
  show ?case
  proof (cases "0 \<le> i \<and> uint (eeprom st i) < score st")
    case False
    then have "showHighScores_rank i st = st"
      by (subst showHighScores_rank.simps) (auto simp: EEPROM_read_def)
    moreover from False have "\<not> (0 \<le> a \<and> a \<le> i \<and> (\<forall>j. a \<le> j \<and> j \<le> i \<longrightarrow> uint (eeprom st j) < score st))"
      by auto
    ultimately show ?thesis by (simp only: if_False)
  next
    case True
    define st' where "st' = EEPROM_write i (score st) (if i < 4 then EEPROM_write i (i + 1) st else st)"
    have e': "eeprom st' = (eeprom st)(i := word_of_int (score st))"
      and s': "score st' = score st"
      by (auto simp: st'_def)
    from True have unf: "showHighScores_rank i st = showHighScores_rank (i - 1) st'"
      by (subst showHighScores_rank.simps) (simp add: EEPROM_read_def st'_def Let_def)
    have IH: "eeprom (showHighScores_rank (i - 1) st') a =
     (if 0 \<le> a \<and> a \<le> i - 1 \<and> (\<forall>j. a \<le> j \<and> j \<le> i - 1 \<longrightarrow> uint (eeprom st' j) < score st')
      then word_of_int (score st') else eeprom st' a)"
      using True by (intro "1.IH"[where a=a, folded st'_def, simplified Let_def]) (auto simp: EEPROM_read_def st'_def Let_def)
    show ?thesis
    proof (cases "a = i")
      case True
      with \<open>0 \<le> i \<and> _\<close> show ?thesis unfolding unf IH by (auto simp: e' s' dest: antisym)
    next
      case False
      have "(\<forall>j. a \<le> j \<and> j \<le> i - 1 \<longrightarrow> uint (eeprom st' j) < score st') \<longleftrightarrow>
            (\<forall>j. a \<le> j \<and> j \<le> i - 1 \<longrightarrow> uint (eeprom st j) < score st)"
        by (auto simp: e' s')
      moreover have "a \<le> i \<Longrightarrow> (\<forall>j. a \<le> j \<and> j \<le> i \<longrightarrow> uint (eeprom st j) < score st) \<longleftrightarrow>
            (\<forall>j. a \<le> j \<and> j \<le> i - 1 \<longrightarrow> uint (eeprom st j) < score st)"
        using True by (metis add.commute add_diff_cancel_left' diff_add_cancel zle_diff1_eq order_le_less)
      ultimately show ?thesis unfolding unf IH using False by (auto simp: e' s')
    qed
  qed
qed

lemma eeprom_writes_map [simp]:
  "eeprom_writes (map (\<lambda>(a, v). EepromWrite a v) ws) = ws"
  by (induction ws) auto

lemma trace_rank:
  assumes "m \<le> i" and "- 1 \<le> m"
    and "\<forall>j. m < j \<and> j \<le> i \<longrightarrow> uint (eeprom st j) < score st"
    and "0 \<le> m \<longrightarrow> score st \<le> uint (eeprom st m)"
  shows "trace (showHighScores_rank i st) =
         trace st @ map (\<lambda>(a, v). EepromWrite a v)
                      (concat (map (round_writes (score st)) (rev [m + 1..i])))"
  using assms
proof (induction i st rule: showHighScores_rank.induct)
  case (1 i st)
  show ?case
  proof (cases "m = i")
    case True
    with "1.prems" have "showHighScores_rank i st = st"
      by (subst showHighScores_rank.simps) (auto simp: EEPROM_read_def)
    with True show ?thesis by simp
  next
    case False
    with "1.prems" have lt: "m < i" and pos: "0 \<le> i" and beat: "uint (eeprom st i) < score st"
      by auto
    define st' where "st' = EEPROM_write i (score st) (if i < 4 then EEPROM_write i (i + 1) st else st)"
    have e': "eeprom st' = (eeprom st)(i := word_of_int (score st))"
      and s': "score st' = score st"
      and t': "trace st' = trace st @ map (\<lambda>(a, v). EepromWrite a v) (round_writes (score st) i)"
      by (auto simp: st'_def round_writes_def)
    from pos beat have unf: "showHighScores_rank i st = showHighScores_rank (i - 1) st'"
      by (subst showHighScores_rank.simps) (simp add: EEPROM_read_def st'_def Let_def)
    have "trace (showHighScores_rank (i - 1) st') =
         trace st' @ map (\<lambda>(a, v). EepromWrite a v)
                      (concat (map (round_writes (score st')) (rev [m + 1..i - 1])))"
    proof (rule "1.IH" [where x = "if i < 4 then EEPROM_write i (i + 1) st else st", folded st'_def])
      show "0 \<le> i" by (rule pos)
      show "uint (EEPROM_read i st) < score st" using beat by (simp add: EEPROM_read_def)
      show "m \<le> i - 1" using lt by simp
      show "- 1 \<le> m" by (rule "1.prems")
      show "\<forall>j. m < j \<and> j \<le> i - 1 \<longrightarrow> uint (eeprom st' j) < score st'"
        using "1.prems"(3) by (auto simp: e' s')
      show "0 \<le> m \<longrightarrow> score st' \<le> uint (eeprom st' m)"
        using "1.prems"(4) lt by (auto simp: e' s')
    qed (simp_all add: st'_def)
    moreover have "rev [m + 1..i] = i # rev [m + 1..i - 1]"
      using lt by (subst upto_rec2) simp_all
    ultimately show ?thesis
      by (simp add: unf t' s')
  qed
qed

lemma announce_simps [simp]:
  "score (showHighScores_announce st) = score st"
  "eeprom (showHighScores_announce st) = eeprom st"
  "trace (showHighScores_announce st) =
     trace st @ (if uint (eeprom st 5) < score st
                 then [LcdClear, LcdPrint ''New High Score!'', Delay 1000] else [])"
  by (simp_all add: showHighScores_announce_def prim_defs Let_def)

lemma render_simps [simp]:
  "score (renderLeaderboard st) = score st"
  "eeprom (renderLeaderboard st) = eeprom st"
  "trace (renderLeaderboard st) = trace st @ display_events (leaderboard st)"
  by (simp_all add: renderLeaderboard_def print_unfold prim_defs Let_def display_events_def
      leaderboard_def)

lemma eeprom_writes_display [simp]: "eeprom_writes (display_events vs) = []"
  by (induction vs) (simp_all add: display_events_def)

lemma score_recordSession [simp]: "score (recordSession s st) = s"
  by (simp add: recordSession_def showHighScores_def Let_def)

lemma eeprom_recordSession:
  "eeprom (recordSession s st) a =
     (if 0 \<le> a \<and> a \<le> 4 \<and> (\<forall>j. a \<le> j \<and> j \<le> 4 \<longrightarrow> uint (eeprom st j) < s)
      then word_of_int s else eeprom st a)"
  by (auto simp add: recordSession_def showHighScores_def Let_def eeprom_rank)

lemma trace_recordSession:
  assumes "m \<le> 4" and "- 1 \<le> m"
    and "list_all (\<lambda>j. uint (eeprom st j) < s) [m + 1..4]"
    and "0 \<le> m \<longrightarrow> s \<le> uint (eeprom st m)"
  shows "trace (recordSession s st) =
         trace st @
         (if uint (eeprom st 5) < s
          then [LcdClear, LcdPrint ''New High Score!'', Delay 1000] else []) @
         map (\<lambda>(a, v). EepromWrite a v) (concat (map (round_writes s) (rev [m + 1..4]))) @
         display_events (leaderboard (recordSession s st))"
proof -
  let ?st = "showHighScores_announce (st\<lparr>score := s\<rparr>)"
  have "trace (showHighScores_rank 4 ?st) =
         trace ?st @ map (\<lambda>(a, v). EepromWrite a v)
                      (concat (map (round_writes (score ?st)) (rev [m + 1..4])))"
    using assms by (intro trace_rank) (auto simp: list_all_iff)
  moreover have "leaderboard (recordSession s st) = leaderboard (showHighScores_rank 4 ?st)"
    by (simp add: leaderboard_def recordSession_def showHighScores_def Let_def)
  ultimately show ?thesis
    by (simp add: recordSession_def showHighScores_def Let_def)
qed

lemma writes_recordSession:
  assumes "m \<le> 4" and "- 1 \<le> m"
    and "list_all (\<lambda>j. uint (eeprom st j) < s) [m + 1..4]"
    and "0 \<le> m \<longrightarrow> s \<le> uint (eeprom st m)"
  shows "eeprom_writes (trace (recordSession s st)) =
         eeprom_writes (trace st) @ concat (map (round_writes s) (rev [m + 1..4]))"
  by (simp add: trace_recordSession [OF assms])

lemma slots_recordSession:
  "eeprom (recordSession s st) 4 =
     (if uint (eeprom st 4) < s then word_of_int s else eeprom st 4)"
  "eeprom (recordSession s st) 3 =
     (if uint (eeprom st 4) < s \<and> uint (eeprom st 3) < s then word_of_int s else eeprom st 3)"
  "eeprom (recordSession s st) 2 =
     (if uint (eeprom st 4) < s \<and> uint (eeprom st 3) < s \<and> uint (eeprom st 2) < s
      then word_of_int s else eeprom st 2)"
  "eeprom (recordSession s st) 1 =
     (if uint (eeprom st 4) < s \<and> uint (eeprom st 3) < s \<and> uint (eeprom st 2) < s \<and>
         uint (eeprom st 1) < s
      then word_of_int s else eeprom st 1)"
  "eeprom (recordSession s st) 0 =
     (if uint (eeprom st 4) < s \<and> uint (eeprom st 3) < s \<and> uint (eeprom st 2) < s \<and>
         uint (eeprom st 1) < s \<and> uint (eeprom st 0) < s
      then word_of_int s else eeprom st 0)"
  by (simp_all add: recordSession_def showHighScores_def Let_def rank_unfold EEPROM_read_def)

lemma word_of_int_le_byte:
  "uint (y::byte) < s \<Longrightarrow> s \<le> uint (x::byte) \<Longrightarrow> (word_of_int s :: byte) \<le> x"
proof -
  assume a: "uint y < s" and b: "s \<le> uint x"
  have "uint x < 2 ^ 8" using uint_bounded [of x] by simp
  with a b have "s mod 2 ^ 8 = s" by (intro mod_pos_pos_trivial) (use uint_ge_0 [of y] in linarith)+
  then have "uint (word_of_int s :: byte) = s" by (simp add: uint_word_of_int)
  with b show ?thesis by (simp add: word_le_def)
qed

lemma sorted_desc_recordSession:
  assumes "sorted_desc st" shows "sorted_desc (recordSession s st)"
proof -
  note w = word_of_int_le_byte [of "eeprom st 4" s]
  have "eeprom (recordSession s st) 1 \<le> eeprom (recordSession s st) 0"
    using assms w unfolding sorted_desc_def slots_recordSession by (simp add: not_less)
  moreover have "eeprom (recordSession s st) 2 \<le> eeprom (recordSession s st) 1"
    using assms w unfolding sorted_desc_def slots_recordSession by (simp add: not_less)
  moreover have "eeprom (recordSession s st) 3 \<le> eeprom (recordSession s st) 2"
    using assms w unfolding sorted_desc_def slots_recordSession by (simp add: not_less)
  moreover have "eeprom (recordSession s st) 4 \<le> eeprom (recordSession s st) 3"
    using assms w unfolding sorted_desc_def slots_recordSession by (simp add: not_less)
  ultimately show ?thesis by (simp add: sorted_desc_def)
qed

lemma sorted_desc_sessions:
  "sorted_desc st \<Longrightarrow> sorted_desc (sessions ss st)"
  by (induction ss arbitrary: st) (simp_all add: sorted_desc_recordSession)

lemma showHighScores_eq: "showHighScores st = recordSession (score st) st"
  by (simp add: recordSession_def)

lemma writes_to_append [simp]: "writes_to a (xs @ ys) = writes_to a xs @ writes_to a ys"
  by (simp add: writes_to_def)

lemma writes_to_rank:
  "i < a \<Longrightarrow> writes_to a (trace (showHighScores_rank i st)) = writes_to a (trace st)"
proof (induction i st rule: showHighScores_rank.induct)
  case (1 i st)
  show ?case
  proof (cases "0 \<le> i \<and> uint (EEPROM_read i st) < score st")
    case False
    then have "showHighScores_rank i st = st"
      by (subst showHighScores_rank.simps) auto
    then show ?thesis by simp
  next
    case True
    define st' where "st' = EEPROM_write i (score st) (if i < 4 then EEPROM_write i (i + 1) st else st)"
    from True have unf: "showHighScores_rank i st = showHighScores_rank (i - 1) st'"
      by (subst showHighScores_rank.simps) (simp add: st'_def Let_def)
    have "writes_to a (trace (showHighScores_rank (i - 1) st')) = writes_to a (trace st')"
      using True "1.prems"
      by (intro "1.IH" [where x = "if i < 4 then EEPROM_write i (i + 1) st else st", folded st'_def])
        (simp_all add: st'_def)
    moreover have "writes_to a (trace st') = writes_to a (trace st)"
      using "1.prems" by (simp add: st'_def writes_to_def)
    ultimately show ?thesis by (simp add: unf)
  qed
qed

lemma writes_to_display [simp]: "writes_to a (display_events vs) = []"
  by (simp add: writes_to_def)

lemma writes_to_showHighScores:
  "4 < a \<Longrightarrow> writes_to a (trace (showHighScores st)) = writes_to a (trace st)"
  by (simp add: showHighScores_def Let_def writes_to_rank) (simp add: writes_to_def)

lemma debugMode_reset_simps:
  "score (debugMode_reset st) = score st"
  "eeprom (debugMode_reset st) = (eeprom st)(0 := 10, 1 := 7, 2 := 5, 3 := 4, 4 := 2)"
  "trace (debugMode_reset st) =
     trace st @ [EepromWrite 0 10, EepromWrite 1 7, EepromWrite 2 5, EepromWrite 3 4,
                 EepromWrite 4 2, LcdClear, LcdPrint ''Scores reset to'', LcdSetCursor 0 1,
                 LcdPrint ''default values.'', Delay 3000]"
  by (simp_all add: debugMode_reset_def defaults_unfold highscore_def fullPagePrint_def
      lcd_clear_def lcd_print_def lcd_setCursor_def delay_def Let_def)

lemma concat_replicate_snoc:
  "concat (replicate n xs) @ xs = xs @ concat (replicate n xs)"
  by (induction n) simp_all

lemma funpow_render:
  "score ((renderLeaderboard ^^ n) st) = score st \<and>
   eeprom ((renderLeaderboard ^^ n) st) = eeprom st \<and>
   trace ((renderLeaderboard ^^ n) st) =
     trace st @ concat (replicate n (display_events (leaderboard st)))"
proof (induction n)
  case 0
  show ?case by simp
next
  case (Suc n)
  then have "leaderboard ((renderLeaderboard ^^ n) st) = leaderboard st"
    by (simp add: leaderboard_def)
  with Suc show ?case by (simp add: concat_replicate_snoc)
qed

lemma board_simps [simp]:
  "score (board v0 v1 v2 v3 v4 b5) = 0"
  "trace (board v0 v1 v2 v3 v4 b5) = []"
  "eeprom (board v0 v1 v2 v3 v4 b5) 0 = v0"
  "eeprom (board v0 v1 v2 v3 v4 b5) 1 = v1"
  "eeprom (board v0 v1 v2 v3 v4 b5) 2 = v2"
  "eeprom (board v0 v1 v2 v3 v4 b5) 3 = v3"
  "eeprom (board v0 v1 v2 v3 v4 b5) 4 = v4"
  "eeprom (board v0 v1 v2 v3 v4 b5) 5 = b5"
  by (simp_all add: board_def)

lemma upto_0_simps [simp]:
  "[0..0] = [0::int]" "[0..1] = [0, 1::int]" "[0..2] = [0, 1, 2::int]"
  "[0..3] = [0, 1, 2, 3::int]" "[0..4] = [0, 1, 2, 3, 4::int]" "[1..4] = [1, 2, 3, 4::int]"
  by (simp_all add: upto_rec1)

lemma trace_rank_writes_only:
  "\<exists>ws. trace (showHighScores_rank i st) = trace st @ map (\<lambda>(a, v). EepromWrite a v) ws"
proof (induction i st rule: showHighScores_rank.induct)
  case (1 i st)
  show ?case
  proof (cases "0 \<le> i \<and> uint (EEPROM_read i st) < score st")
    case False
    then have "showHighScores_rank i st = st"
      by (subst showHighScores_rank.simps) auto
    then have "trace (showHighScores_rank i st) = trace st @ map (\<lambda>(a, v). EepromWrite a v) []"
      by simp
    then show ?thesis by blast
  next
    case True
    define st' where "st' = EEPROM_write i (score st) (if i < 4 then EEPROM_write i (i + 1) st else st)"
    from True have unf: "showHighScores_rank i st = showHighScores_rank (i - 1) st'"
      by (subst showHighScores_rank.simps) (simp add: st'_def Let_def)
    have "\<exists>ws. trace (showHighScores_rank (i - 1) st') = trace st' @ map (\<lambda>(a, v). EepromWrite a v) ws"
      using True
      by (intro "1.IH" [where x = "if i < 4 then EEPROM_write i (i + 1) st else st", folded st'_def])
        (simp_all add: st'_def)
    then obtain ws where ws: "trace (showHighScores_rank (i - 1) st') =
        trace st' @ map (\<lambda>(a, v). EepromWrite a v) ws"
      by blast
    have "trace st' = trace st @ map (\<lambda>(a, v). EepromWrite a v) (round_writes (score st) i)"
      by (simp add: st'_def round_writes_def)
    with ws have "trace (showHighScores_rank i st) =
        trace st @ map (\<lambda>(a, v). EepromWrite a v) (round_writes (score st) i @ ws)"
      by (simp add: unf)
    then show ?thesis by blast
  qed
qed

lemma announce_then_writes_then_display:
  "\<exists>ws. trace (recordSession s st) =
     trace st @
     (if uint (eeprom st 5) < s
      then [LcdClear, LcdPrint ''New High Score!'', Delay 1000] else []) @
     map (\<lambda>(a, v). EepromWrite a v) ws @
     display_events (leaderboard (recordSession s st))"
proof -
  let ?st = "showHighScores_announce (st\<lparr>score := s\<rparr>)"
  obtain ws where "trace (showHighScores_rank 4 ?st) =
      trace ?st @ map (\<lambda>(a, v). EepromWrite a v) ws"
    using trace_rank_writes_only by blast
  moreover have "leaderboard (recordSession s st) = leaderboard (showHighScores_rank 4 ?st)"
    by (simp add: leaderboard_def recordSession_def showHighScores_def Let_def)
  ultimately have "trace (recordSession s st) =
     trace st @
     (if uint (eeprom st 5) < s
      then [LcdClear, LcdPrint ''New High Score!'', Delay 1000] else []) @
     map (\<lambda>(a, v). EepromWrite a v) ws @
     display_events (leaderboard (recordSession s st))"
    by (simp add: recordSession_def showHighScores_def Let_def)
  then show ?thesis by blast
qed

section \<open>The claims\<close>

text \<open>
  C1 (displacement). The claim: from the leaderboard 10, 7, 5, 4, 2 a session with final
  score 6 gives 10, 7, 6, 5, 4. On the code the claim fails: the ranking loop writes
  \<open>i + 1\<close> into cell \<open>i\<close> itself and then the score over it, so nothing is shifted down
  and the cells 2, 3 and 4 all end up holding 6, whatever cell 5 holds.
\<close>

theorem displacement_duplicates:
  "leaderboard (recordSession 6 (board 10 7 5 4 2 b5)) = [10, 7, 6, 6, 6] \<and>
   eeprom_writes (trace (recordSession 6 (board 10 7 5 4 2 b5))) =
     [(4, 6), (3, 4), (3, 6), (2, 3), (2, 6)]"
  using writes_recordSession [of 1 "board 10 7 5 4 2 b5" 6]
  by (simp add: leaderboard_def slots_recordSession round_writes_def)

text \<open>
  C2 (new top score). The claim: from the leaderboard 10, 7, 5, 4, 2 a session with final
  score 15 gives 15, 10, 7, 5, 4 and announces a new high score. On the code all five cells
  end up holding 15, whatever cell 5 holds, and on a board whose cell 5 is erased (255)
  the trace of the call has no announcement: it starts with the EEPROM writes.
\<close>

theorem new_top_score_duplicates:
  "leaderboard (recordSession 15 (board 10 7 5 4 2 b5)) = [15, 15, 15, 15, 15] \<and>
   trace (recordSession 15 (board 10 7 5 4 2 255)) =
     [EepromWrite 4 15, EepromWrite 3 4, EepromWrite 3 15, EepromWrite 2 3,
      EepromWrite 2 15, EepromWrite 1 2, EepromWrite 1 15, EepromWrite 0 1,
      EepromWrite 0 15,
      LcdClear, LcdPrint ''High scores: '', LcdSetCursor 0 1,
      LcdPrintNum 15, LcdPrint '' '', LcdPrintNum 15, LcdPrint '' '',
      LcdPrintNum 15, LcdPrint '' '', LcdPrintNum 15, LcdPrint '' '',
      LcdPrintNum 15, LcdPrint '' '']"
proof -
  have "leaderboard (recordSession 15 (board 10 7 5 4 2 b5)) = [15, 15, 15, 15, 15]" for b5
    by (simp add: leaderboard_def slots_recordSession)
  then show ?thesis
    using trace_recordSession [of "- 1" "board 10 7 5 4 2 255" 15]
    by (simp add: round_writes_def display_events_def)
qed

text \<open>
  C3 (ordering invariant). If the cells 0 to 4 are sorted non-ascending, they are sorted
  non-ascending again after every call of any sequence of sessions: after the first
  \<open>n\<close> calls, for every \<open>n\<close> up to the length of the sequence. The scores are
  arbitrary values of the \<^verbatim>\<open>int\<close> global, the non-negative ones among them.
\<close>

theorem ordering_invariant:
  assumes "sorted_desc st" and "n \<le> length ss"
  shows "sorted_desc (sessions (take n ss) st)"
  using assms(1) by (rule sorted_desc_sessions)

theorem ordering_invariant_witness:
  "sorted_desc (board 10 7 5 4 2 255) \<and> (2::nat) \<le> length [6, 15, 300 :: int] \<and>
   sorted_desc (sessions (take 2 [6, 15, 300]) (board 10 7 5 4 2 255))"
proof -
  have h: "sorted_desc (board 10 7 5 4 2 255)"
    by (simp add: sorted_desc_def)
  have l: "(2::nat) \<le> length [6, 15, 300 :: int]"
    by simp
  from h l ordering_invariant [OF h l] show ?thesis
    by (intro conjI)
qed

text \<open>
  C4 (non-qualifying scores). A session whose final score is at most the value of cell 4
  leaves the five cells unchanged; indeed it leaves the whole EEPROM unchanged and makes
  no EEPROM write at all.
\<close>

theorem non_qualifying_unchanged:
  assumes "s \<le> uint (eeprom st 4)"
  shows "leaderboard (recordSession s st) = leaderboard st \<and>
         eeprom (recordSession s st) = eeprom st \<and>
         eeprom_writes (trace (recordSession s st)) = eeprom_writes (trace st)"
proof -
  have e: "eeprom (recordSession s st) = eeprom st"
  proof
    fix a
    from assms have "\<not> (\<forall>j. a \<le> j \<and> j \<le> 4 \<longrightarrow> uint (eeprom st j) < s)" if "a \<le> 4"
      using that by (auto intro!: exI [of _ 4])
    then show "eeprom (recordSession s st) a = eeprom st a"
      unfolding eeprom_recordSession by auto
  qed
  have "eeprom_writes (trace (recordSession s st)) =
        eeprom_writes (trace st) @ concat (map (round_writes s) (rev [4 + 1..4]))"
    using assms by (intro writes_recordSession) simp_all
  with e show ?thesis by (simp add: leaderboard_def)
qed

theorem non_qualifying_unchanged_witness:
  "(2::int) \<le> uint (eeprom (board 10 7 5 4 2 255) 4) \<and>
   leaderboard (recordSession 2 (board 10 7 5 4 2 255)) = [10, 7, 5, 4, 2]"
  using non_qualifying_unchanged [of 2 "board 10 7 5 4 2 255"]
  by (simp add: leaderboard_def)

text \<open>
  C5 (announcement). The claim: ``New High Score!'' is shown exactly when the final score
  exceeds the top score in cell 0, before any cell is updated. The code compares with
  cell 5 instead (see \<open>announce_then_writes_then_display\<close> for what it does in general). On
  the board 10, 7, 5, 4, 2 with an erased cell 5, the score 15 exceeds the top score 10 and
  nothing is announced; with cell 5 holding 0, the score 1 does not exceed the top score
  and the announcement is made.
\<close>

theorem announcement_reads_byte5:
  "uint (eeprom (board 10 7 5 4 2 255) 0) < 15 \<and>
   LcdPrint ''New High Score!'' \<notin> set (trace (recordSession 15 (board 10 7 5 4 2 255))) \<and>
   \<not> uint (eeprom (board 10 7 5 4 2 0) 0) < 1 \<and>
   LcdPrint ''New High Score!'' \<in> set (trace (recordSession 1 (board 10 7 5 4 2 0)))"
  using trace_recordSession [of "- 1" "board 10 7 5 4 2 255" 15]
    trace_recordSession [of 4 "board 10 7 5 4 2 0" 1]
  by (simp add: round_writes_def display_events_def)

text \<open>
  C6 (the scan stops). Let cell \<open>k\<close> (0 to 4) be the first cell the downward scan meets
  whose value is at least the final score: every cell below it, \<open>k + 1\<close> to 4, was
  beaten. Then the EEPROM writes of the call are exactly the rounds for the cells 4 down
  to \<open>k + 1\<close>, all of them at addresses above \<open>k\<close>, and the cells 0 to \<open>k\<close> are
  unchanged.
\<close>

theorem scan_stops_at_first_unbeaten:
  assumes "0 \<le> k" and "k \<le> 4"
    and "s \<le> uint (eeprom st k)"
    and "list_all (\<lambda>j. uint (eeprom st j) < s) [k + 1..4]"
  shows "eeprom_writes (trace (recordSession s st)) =
           eeprom_writes (trace st) @ concat (map (round_writes s) (rev [k + 1..4])) \<and>
         list_all (\<lambda>w. k < fst w) (concat (map (round_writes s) (rev [k + 1..4]))) \<and>
         list_all (\<lambda>a. eeprom (recordSession s st) a = eeprom st a) [0..k]"
proof -
  have "eeprom_writes (trace (recordSession s st)) =
           eeprom_writes (trace st) @ concat (map (round_writes s) (rev [k + 1..4]))"
    using assms by (intro writes_recordSession) simp_all
  moreover have "list_all (\<lambda>w. k < fst w) (concat (map (round_writes s) (rev [k + 1..4])))"
    by (auto simp: list_all_iff round_writes_def)
  moreover have "eeprom (recordSession s st) a = eeprom st a" if "a \<le> k" for a
  proof -
    from assms that have "\<not> (\<forall>j. a \<le> j \<and> j \<le> 4 \<longrightarrow> uint (eeprom st j) < s)"
      by (auto intro!: exI [of _ k])
    then show ?thesis unfolding eeprom_recordSession by auto
  qed
  ultimately show ?thesis by (simp add: list_all_iff)
qed

theorem scan_stops_at_first_unbeaten_witness:
  "(6::int) \<le> uint (eeprom (board 10 7 5 4 2 255) 1) \<and>
   list_all (\<lambda>j. uint (eeprom (board 10 7 5 4 2 255) j) < 6) [2, 3, 4] \<and>
   eeprom_writes (trace (recordSession 6 (board 10 7 5 4 2 255))) =
     [(4, 6), (3, 4), (3, 6), (2, 3), (2, 6)] \<and>
   eeprom (recordSession 6 (board 10 7 5 4 2 255)) 0 = 10 \<and>
   eeprom (recordSession 6 (board 10 7 5 4 2 255)) 1 = 7"
  using scan_stops_at_first_unbeaten [of 1 6 "board 10 7 5 4 2 255"]
  by (simp add: round_writes_def)

text \<open>
  C7 (reset). Whatever the EEPROM held, after the reset branch of \<^verbatim>\<open>debugMode\<close> the
  cells 0 to 4 hold 10, 7, 5, 4, 2.
\<close>

theorem reset_yields_defaults:
  "leaderboard (debugMode_reset st) = [10, 7, 5, 4, 2]"
  by (simp add: leaderboard_def debugMode_reset_simps)

text \<open>
  C8 (render purity). Running the display step any number \<open>n\<close> of times leaves the
  EEPROM as it was, adds no EEPROM write to the trace, and sends the display the same
  events every time: those of the five cell values it started from.
\<close>

theorem render_is_pure:
  "eeprom ((renderLeaderboard ^^ n) st) = eeprom st \<and>
   eeprom_writes (trace ((renderLeaderboard ^^ n) st)) = eeprom_writes (trace st) \<and>
   trace ((renderLeaderboard ^^ n) st) =
     trace st @ concat (replicate n (display_events (leaderboard st)))"
proof -
  have "eeprom_writes (concat (replicate n (display_events vs))) = []" for vs
    by (induction n) simp_all
  then show ?thesis by (simp add: funpow_render)
qed

text \<open>
  C9 (duplicates). As stated the claim fails where the score does not fit a byte: with
  the score 300 every beaten cell holds 44, the low byte of 300, not 300.
\<close>

theorem suffix_holds_score_counterexample:
  "sorted_desc (board 10 7 5 4 2 255) \<and>
   uint (eeprom (board 10 7 5 4 2 255) 4) < 300 \<and>
   uint (eeprom (recordSession 300 (board 10 7 5 4 2 255)) 4) = 44 \<and>
   uint (eeprom (recordSession 300 (board 10 7 5 4 2 255)) 4) \<noteq> 300"
  by (simp add: sorted_desc_def slots_recordSession)

text \<open>
  C9, amended. From a leaderboard sorted non-ascending and for every score \<open>s\<close>, the
  result is the unchanged prefix of the cells with value at least \<open>s\<close>, followed by a
  suffix in which every cell holds the byte written for \<open>s\<close>, whose value is
  \<open>s mod 256\<close> (so \<open>s\<close> itself from 0 to 255); and the EEPROM writes of the call are
  the rounds of the suffix cells from 4 downwards, in each of which the write of
  \<open>i + 1\<close> is directly followed by the write of the score to the same cell.
\<close>

theorem duplicates_suffix:
  assumes "sorted_desc st"
  shows "leaderboard (recordSession s st) =
           kept s st @ replicate (5 - length (kept s st)) (word_of_int s) \<and>
         eeprom_writes (trace (recordSession s st)) =
           eeprom_writes (trace st) @
           concat (map (round_writes s) (rev [int (length (kept s st))..4])) \<and>
         uint (word_of_int s :: byte) = s mod 256"
proof -
  let ?e = "eeprom st"
  from assms have le: "uint (?e 1) \<le> uint (?e 0)" "uint (?e 2) \<le> uint (?e 1)"
    "uint (?e 3) \<le> uint (?e 2)" "uint (?e 4) \<le> uint (?e 3)"
    by (simp_all add: sorted_desc_def word_le_def)
  have m: "uint (word_of_int s :: byte) = s mod 256"
    by (simp add: uint_word_of_int take_bit_eq_mod)
  consider (c5) "s \<le> uint (?e 4)"
    | (c4) "uint (?e 4) < s" "s \<le> uint (?e 3)"
    | (c3) "uint (?e 3) < s" "s \<le> uint (?e 2)"
    | (c2) "uint (?e 2) < s" "s \<le> uint (?e 1)"
    | (c1) "uint (?e 1) < s" "s \<le> uint (?e 0)"
    | (c0) "uint (?e 0) < s"
    by linarith
  then have "leaderboard (recordSession s st) =
           kept s st @ replicate (5 - length (kept s st)) (word_of_int s) \<and>
         eeprom_writes (trace (recordSession s st)) =
           eeprom_writes (trace st) @
           concat (map (round_writes s) (rev [int (length (kept s st))..4]))"
  proof cases
    case c5
    with le writes_recordSession [of 4 st s] show ?thesis
      by (simp add: kept_def leaderboard_def slots_recordSession eval_nat_numeral)
  next
    case c4
    with le writes_recordSession [of 3 st s] show ?thesis
      by (simp add: kept_def leaderboard_def slots_recordSession eval_nat_numeral)
  next
    case c3
    with le writes_recordSession [of 2 st s] show ?thesis
      by (simp add: kept_def leaderboard_def slots_recordSession eval_nat_numeral)
  next
    case c2
    with le writes_recordSession [of 1 st s] show ?thesis
      by (simp add: kept_def leaderboard_def slots_recordSession eval_nat_numeral)
  next
    case c1
    with le writes_recordSession [of 0 st s] show ?thesis
      by (simp add: kept_def leaderboard_def slots_recordSession eval_nat_numeral)
  next
    case c0
    with le writes_recordSession [of "- 1" st s] show ?thesis
      by (simp add: kept_def leaderboard_def slots_recordSession eval_nat_numeral)
  qed
  with m show ?thesis by simp
qed

theorem duplicates_suffix_witness:
  "sorted_desc (board 20 15 9 3 1 255) \<and>
   leaderboard (recordSession 9 (board 20 15 9 3 1 255)) = [20, 15, 9, 9, 9] \<and>
   eeprom_writes (trace (recordSession 9 (board 20 15 9 3 1 255))) =
     [(4, 9), (3, 4), (3, 9)]"
proof -
  have h: "sorted_desc (board 20 15 9 3 1 255)"
    by (simp add: sorted_desc_def)
  have k: "kept 9 (board 20 15 9 3 1 255) = [20, 15, 9]"
    by (simp add: kept_def leaderboard_def)
  from h duplicates_suffix [OF h, of 9] show ?thesis
    by (simp add: k round_writes_def eval_nat_numeral)
qed

text \<open>
  C10 (cell 5 is never written). Neither \<^verbatim>\<open>showHighScores\<close> nor the reset branch of
  \<^verbatim>\<open>debugMode\<close> nor the display step changes cell 5 or adds a write to address 5 to the
  trace. No other function of the sketch writes the EEPROM.
\<close>

theorem byte5_never_written:
  "eeprom (showHighScores st) 5 = eeprom st 5 \<and>
   writes_to 5 (trace (showHighScores st)) = writes_to 5 (trace st) \<and>
   eeprom (debugMode_reset st) 5 = eeprom st 5 \<and>
   writes_to 5 (trace (debugMode_reset st)) = writes_to 5 (trace st) \<and>
   eeprom (renderLeaderboard st) 5 = eeprom st 5 \<and>
   writes_to 5 (trace (renderLeaderboard st)) = writes_to 5 (trace st)"
proof -
  have "eeprom (showHighScores st) 5 = eeprom st 5"
    by (simp add: showHighScores_eq eeprom_recordSession)
  moreover have "writes_to 5 (trace (showHighScores st)) = writes_to 5 (trace st)"
    by (simp add: writes_to_showHighScores)
  moreover have "writes_to 5 (trace (debugMode_reset st)) = writes_to 5 (trace st)"
    by (simp add: debugMode_reset_simps writes_to_def)
  ultimately show ?thesis by (simp add: debugMode_reset_simps)
qed

end
